theory Spec2Isabelle
  imports Complex_Main
begin

section \<open>Autotrade broker integration: data model\<close>

text \<open>
  The development embeds three source units of the Autotrade integration:
  \<^item> \<^verbatim>\<open>brokers/autotrade/types.ts\<close>: the remote schema and the two transform functions;
  \<^item> \<^verbatim>\<open>brokers/autotrade/AutotradeAdapter.ts\<close>: the broker adapter (its read operations
    \<^verbatim>\<open>getFunds\<close> and \<^verbatim>\<open>getPositions\<close>, the six write operations, and the private helpers
    \<^verbatim>\<open>invokeAutotradeCommand\<close> and \<^verbatim>\<open>transformPosition\<close>);
  \<^item> \<^verbatim>\<open>services/portfolio/autotradeService.ts\<close>: the portfolio bridge service.

  Conventions of the embedding.
  \<^item> A TypeScript \<^verbatim>\<open>number\<close> is a \<^typ>\<open>real\<close>: the values that reach this code are the
    finite numbers of a JSON payload, and the operations used on them are comparison
    with zero, absolute value, sums, products and one guarded quotient. Rounding,
    infinities and NaN are outside the model.
  \<^item> An optional property (\<^verbatim>\<open>field?: T\<close>) is an \<^typ>\<open>'a option\<close>; \<open>None\<close> is the absent
    (or \<^verbatim>\<open>null\<close>) property.
  \<^item> An \<^verbatim>\<open>async\<close> method returns \<open>error + 'a\<close> together with the state it leaves behind:
    \<open>Inl\<close> is a rejected promise (a \<^verbatim>\<open>throw\<close>), \<open>Inr\<close> a resolved one.
  \<^item> Output on \<^verbatim>\<open>console.error\<close> is not modelled.
\<close>

type_synonym number = real

datatype error = Error string

text \<open>The wall clock: \<^verbatim>\<open>Date.now()\<close> and \<^verbatim>\<open>Date.prototype.toISOString\<close>. Both belong to
  the runtime, so they are parameters of every function that reads the time; the reads
  within one call are taken at the same instant.\<close>

record clock =
  now :: number
  toISOString :: "number \<Rightarrow> string"

subsection \<open>Unified broker types\<close>

text \<open>The interfaces \<^verbatim>\<open>Position\<close>, \<^verbatim>\<open>Funds\<close>, \<^verbatim>\<open>OrderResponse\<close> and \<^verbatim>\<open>BulkOperationResult\<close> are
  declared in \<^verbatim>\<open>brokers/stocks/types.ts\<close>, outside the embedded units. Each record has the
  properties of the object literals that the Autotrade code builds at that type.\<close>

record Position =
  symbol :: string
  exchange :: string
  productType :: "string option"
  quantity :: number
  buyQuantity :: number
  sellQuantity :: number
  buyValue :: number
  sellValue :: number
  averagePrice :: number
  lastPrice :: number
  pnl :: number
  pnlPercent :: number
  dayPnl :: number
  overnight :: bool

record Funds =
  availableCash :: number
  usedMargin :: number
  availableMargin :: number
  totalBalance :: number
  currency :: string

record OrderResponse =
  success :: bool
  message :: "string option"
  errorCode :: "string option"

record 'r BulkOperationResult =
  success :: bool
  totalCount :: number
  successCount :: number
  failedCount :: number
  results :: "'r list"

subsection \<open>Remote schema (\<^verbatim>\<open>types.ts\<close>)\<close>

record AutotradePosition = Position +
  instrument_id :: string
  market_value :: number
  cost_basis :: number
  day_change :: number
  day_change_percent :: number
  weight :: number
  instrument_type :: "string option"

record AutotradePortfolioSummary =
  account_id :: string
  timestamp :: number
  currency :: string
  cash_balance :: number
  total_market_value :: number
  total_cost_basis :: number
  total_unrealized_pnl :: number
  total_unrealized_pnl_percent :: number
  total_realized_pnl :: number
  total_positions :: number
  net_liquidation_value :: number
  buying_power :: "number option"
  day_trading_buying_power :: "number option"
  positions :: "AutotradePosition list"
  last_updated :: string

record AutotradePortfolioHolding =
  symbol :: string
  instrument_id :: string
  portfolio_id :: string
  quantity :: number
  avg_buy_price :: number
  current_price :: number
  market_value :: number
  cost_basis :: number
  unrealized_pnl :: number
  unrealized_pnl_percent :: number
  day_change :: number
  day_change_percent :: number
  weight :: number
  first_purchase_date :: string
  last_updated :: string

record 'a AutotradeApiResponse =
  success :: bool
  data :: "'a option"
  error :: "string option"
  errorCode :: "string option"
  timestamp :: number
  stale :: "bool option"
  age_seconds :: "number option"

text \<open>The anonymous return type of \<^verbatim>\<open>transformAutotradePortfolioToFincept\<close>.\<close>

record FinceptProjection =
  holdings :: "AutotradePortfolioHolding list"
  totalMarketValue :: number
  totalCostBasis :: number
  totalUnrealizedPnl :: number
  totalUnrealizedPnlPercent :: number
  totalPositions :: number
  lastUpdated :: string

section \<open>Transform functions (\<^verbatim>\<open>types.ts\<close>)\<close>

text \<open>\<^verbatim>\<open>s || d\<close> on a possibly absent string: the absent and the empty string are falsy.\<close>

definition or_string :: "string option \<Rightarrow> string \<Rightarrow> string" where
  "or_string s d = (case s of None \<Rightarrow> d | Some v \<Rightarrow> if v = [] then d else v)"

definition transformAutotradePositionToPosition :: "AutotradePosition \<Rightarrow> Position" where
  "transformAutotradePositionToPosition autotradePosition =
     \<lparr> Position.symbol = Position.symbol autotradePosition,
       exchange = exchange autotradePosition,
       productType = Some (or_string (productType autotradePosition) ''CASH''),
       Position.quantity = Position.quantity autotradePosition,
       buyQuantity = (if Position.quantity autotradePosition > 0
                      then Position.quantity autotradePosition else 0),
       sellQuantity = (if Position.quantity autotradePosition < 0
                       then \<bar>Position.quantity autotradePosition\<bar> else 0),
       buyValue = buyValue autotradePosition,
       sellValue = sellValue autotradePosition,
       averagePrice = averagePrice autotradePosition,
       lastPrice = lastPrice autotradePosition,
       pnl = pnl autotradePosition,
       pnlPercent = pnlPercent autotradePosition,
       dayPnl = dayPnl autotradePosition,
       overnight = True \<rparr>"

definition transformAutotradePortfolioToFincept ::
  "clock \<Rightarrow> AutotradePortfolioSummary \<Rightarrow> string \<Rightarrow> FinceptProjection" where
  "transformAutotradePortfolioToFincept clk portfolio portfolioId =
     (let holdings = map (\<lambda>pos.
            \<lparr> AutotradePortfolioHolding.symbol = Position.symbol pos,
              AutotradePortfolioHolding.instrument_id = AutotradePosition.instrument_id pos,
              AutotradePortfolioHolding.portfolio_id = portfolioId,
              AutotradePortfolioHolding.quantity = Position.quantity pos,
              AutotradePortfolioHolding.avg_buy_price = averagePrice pos,
              AutotradePortfolioHolding.current_price = lastPrice pos,
              AutotradePortfolioHolding.market_value = AutotradePosition.market_value pos,
              AutotradePortfolioHolding.cost_basis = AutotradePosition.cost_basis pos,
              AutotradePortfolioHolding.unrealized_pnl = pnl pos,
              AutotradePortfolioHolding.unrealized_pnl_percent = pnlPercent pos,
              AutotradePortfolioHolding.day_change = dayPnl pos,
              AutotradePortfolioHolding.day_change_percent = 0,
              AutotradePortfolioHolding.weight = AutotradePosition.weight pos,
              AutotradePortfolioHolding.first_purchase_date = toISOString clk (now clk - 86400000),
              AutotradePortfolioHolding.last_updated =
                AutotradePortfolioSummary.last_updated portfolio \<rparr>)
          (positions portfolio)
      in \<lparr> FinceptProjection.holdings = holdings,
           totalMarketValue = AutotradePortfolioSummary.total_market_value portfolio,
           totalCostBasis = AutotradePortfolioSummary.total_cost_basis portfolio,
           totalUnrealizedPnl = AutotradePortfolioSummary.total_unrealized_pnl portfolio,
           totalUnrealizedPnlPercent =
             AutotradePortfolioSummary.total_unrealized_pnl_percent portfolio,
           totalPositions = AutotradePortfolioSummary.total_positions portfolio,
           lastUpdated = AutotradePortfolioSummary.last_updated portfolio \<rparr>)"

section \<open>The broker adapter (\<^verbatim>\<open>AutotradeAdapter.ts\<close>)\<close>

text \<open>The part of the capability interface \<^verbatim>\<open>IStockBrokerAdapter\<close> that the portfolio
  bridge service calls. \<open>'s\<close> is whatever mutable state stands behind an adapter.\<close>

record 's IStockBrokerAdapter =
  getFunds :: "'s \<Rightarrow> (error + Funds) \<times> 's"
  getPositions :: "'s \<Rightarrow> (error + Position list) \<times> 's"

text \<open>The state behind an \<^verbatim>\<open>AutotradeAdapter\<close>: its two private fields \<^verbatim>\<open>_isConnected\<close> and
  \<^verbatim>\<open>_accountId\<close>, and a spy on the native bridge: every call of Tauri's \<^verbatim>\<open>invoke\<close> made so
  far, as the command name and the \<^verbatim>\<open>accountId\<close> argument.\<close>

record adapter_world =
  private_isConnected :: bool
  private_accountId :: string
  invocations :: "(string \<times> string) list"

text \<open>The field initialisers of the class.\<close>

definition new_AutotradeAdapter :: adapter_world where
  "new_AutotradeAdapter =
     \<lparr> private_isConnected = False, private_accountId = [], invocations = [] \<rparr>"

text \<open>Tauri's \<^verbatim>\<open>invoke<T>(command, {accountId})\<close> at the two result types the modelled
  methods use. \<open>Inl\<close> is a rejected call (a transport failure).\<close>

record bridge =
  invoke_summary ::
    "string \<Rightarrow> string \<Rightarrow> error + AutotradePortfolioSummary AutotradeApiResponse"
  invoke_positions ::
    "string \<Rightarrow> string \<Rightarrow> error + AutotradePosition list AutotradeApiResponse"

text \<open>\<^verbatim>\<open>invokeAutotradeCommand\<close>: one bridge call; a rejection is logged and rethrown.\<close>

definition invokeAutotradeCommand ::
  "(string \<Rightarrow> string \<Rightarrow> error + 'a AutotradeApiResponse) \<Rightarrow> string \<Rightarrow> string \<Rightarrow>
   adapter_world \<Rightarrow> (error + 'a AutotradeApiResponse) \<times> adapter_world" where
  "invokeAutotradeCommand invoke command acc w =
     (case invoke command acc of
        Inr response \<Rightarrow> Inr response
      | Inl e \<Rightarrow> Inl e,
      w\<lparr>invocations := invocations w @ [(command, acc)]\<rparr>)"

definition transformPosition :: "AutotradePosition \<Rightarrow> Position" where
  "transformPosition autotradePosition =
     (let qty = Position.quantity autotradePosition;
          avgPrice = averagePrice autotradePosition;
          currentPrice = lastPrice autotradePosition
      in \<lparr> Position.symbol = Position.symbol autotradePosition,
           exchange = exchange autotradePosition,
           productType = Some (or_string (productType autotradePosition) ''CASH''),
           Position.quantity = qty,
           buyQuantity = (if qty > 0 then qty else 0),
           sellQuantity = (if qty < 0 then \<bar>qty\<bar> else 0),
           buyValue = (if qty > 0 then qty * avgPrice else 0),
           sellValue = (if qty < 0 then \<bar>qty\<bar> * avgPrice else 0),
           averagePrice = avgPrice,
           lastPrice = currentPrice,
           pnl = pnl autotradePosition,
           pnlPercent = pnlPercent autotradePosition,
           dayPnl = dayPnl autotradePosition,
           overnight = True \<rparr>)"

text \<open>\<^verbatim>\<open>getFunds\<close>: the \<^verbatim>\<open>catch\<close> block rethrows, so a rejected bridge call and the
  \<^verbatim>\<open>throw new Error(response.error || 'Failed to fetch funds')\<close> both leave the method as
  a rejection. \<^verbatim>\<open>!response.success || !response.data\<close> is read left to right.\<close>

definition getFunds :: "bridge \<Rightarrow> adapter_world \<Rightarrow> (error + Funds) \<times> adapter_world" where
  "getFunds br w =
     (case invokeAutotradeCommand (invoke_summary br) ''autotrade_get_account_summary''
             (private_accountId w) w of
        (Inl e, w') \<Rightarrow> (Inl e, w')
      | (Inr response, w') \<Rightarrow>
          if \<not> AutotradeApiResponse.success response
          then (Inl (Error (or_string (error response) ''Failed to fetch funds'')), w')
          else (case data response of
                  None \<Rightarrow> (Inl (Error (or_string (error response) ''Failed to fetch funds'')), w')
                | Some portfolio \<Rightarrow>
                    (Inr \<lparr> availableCash = cash_balance portfolio,
                           usedMargin = 0,
                           availableMargin = 0,
                           totalBalance = net_liquidation_value portfolio,
                           Funds.currency = AutotradePortfolioSummary.currency portfolio \<rparr>,
                     w')))"

text \<open>\<^verbatim>\<open>getPositions\<close>: the \<^verbatim>\<open>catch\<close> block returns \<^verbatim>\<open>[]\<close>.\<close>

definition getPositions ::
  "bridge \<Rightarrow> adapter_world \<Rightarrow> (error + Position list) \<times> adapter_world" where
  "getPositions br w =
     (case invokeAutotradeCommand (invoke_positions br) ''autotrade_get_positions''
             (private_accountId w) w of
        (Inl e, w') \<Rightarrow> (Inr [], w')
      | (Inr response, w') \<Rightarrow>
          if \<not> AutotradeApiResponse.success response then (Inr [], w')
          else (case data response of
                  None \<Rightarrow> (Inr [], w')
                | Some ps \<Rightarrow> (Inr (map transformPosition ps), w')))"

text \<open>The write operations. The parameter types (\<^verbatim>\<open>OrderParams\<close>, \<^verbatim>\<open>ModifyOrderParams\<close>,
  \<^verbatim>\<open>SmartOrderParams\<close>) are never inspected, so they are type variables.\<close>

definition placeOrder :: "'p \<Rightarrow> adapter_world \<Rightarrow> (error + OrderResponse) \<times> adapter_world" where
  "placeOrder params w =
     (Inr \<lparr> OrderResponse.success = False,
            message = Some ''Autotrade does not support manual order placement'',
            OrderResponse.errorCode = Some ''NOT_SUPPORTED'' \<rparr>, w)"

definition modifyOrder :: "'p \<Rightarrow> adapter_world \<Rightarrow> (error + OrderResponse) \<times> adapter_world" where
  "modifyOrder params w =
     (Inr \<lparr> OrderResponse.success = False,
            message = Some ''Autotrade does not support manual order modification'',
            OrderResponse.errorCode = Some ''NOT_SUPPORTED'' \<rparr>, w)"

definition cancelOrder ::
  "string \<Rightarrow> adapter_world \<Rightarrow> (error + OrderResponse) \<times> adapter_world" where
  "cancelOrder orderId w =
     (Inr \<lparr> OrderResponse.success = False,
            message = Some ''Autotrade does not support manual order cancellation'',
            OrderResponse.errorCode = Some ''NOT_SUPPORTED'' \<rparr>, w)"

definition cancelAllOrders ::
  "adapter_world \<Rightarrow> (error + 'r BulkOperationResult) \<times> adapter_world" where
  "cancelAllOrders w =
     (Inr \<lparr> BulkOperationResult.success = False,
            totalCount = 0, successCount = 0, failedCount = 0, results = [] \<rparr>, w)"

definition closeAllPositions ::
  "adapter_world \<Rightarrow> (error + 'r BulkOperationResult) \<times> adapter_world" where
  "closeAllPositions w =
     (Inr \<lparr> BulkOperationResult.success = False,
            totalCount = 0, successCount = 0, failedCount = 0, results = [] \<rparr>, w)"

definition placeSmartOrder ::
  "'p \<Rightarrow> adapter_world \<Rightarrow> (error + OrderResponse) \<times> adapter_world" where
  "placeSmartOrder params w =
     (Inr \<lparr> OrderResponse.success = False,
            message = Some ''Autotrade does not support smart orders'',
            OrderResponse.errorCode = Some ''NOT_SUPPORTED'' \<rparr>, w)"

text \<open>An \<^verbatim>\<open>AutotradeAdapter\<close> behind the interface.\<close>

definition AutotradeAdapter :: "bridge \<Rightarrow> adapter_world IStockBrokerAdapter" where
  "AutotradeAdapter br =
     \<lparr> IStockBrokerAdapter.getFunds = getFunds br,
       IStockBrokerAdapter.getPositions = getPositions br \<rparr>"

subsection \<open>Portfolio system types\<close>

text \<open>\<^verbatim>\<open>HoldingWithQuote\<close>, \<^verbatim>\<open>Portfolio\<close> and \<^verbatim>\<open>PortfolioSummary\<close> are declared in
  \<^verbatim>\<open>services/portfolio/portfolioService.ts\<close>, outside the embedded units; the records have
  the properties that \<^verbatim>\<open>getPortfolioSummary\<close> fills. The property \<^verbatim>\<open>id\<close> is written \<open>id'\<close>.\<close>

record HoldingWithQuote =
  id' :: string
  portfolio_id :: string
  symbol :: string
  quantity :: number
  avg_buy_price :: number
  current_price :: number
  market_value :: number
  cost_basis :: number
  unrealized_pnl :: number
  unrealized_pnl_percent :: number
  day_change :: number
  day_change_percent :: number
  weight :: number
  first_purchase_date :: string
  last_updated :: string

record Portfolio =
  id' :: string
  name :: string
  owner :: string
  currency :: string
  description :: string
  created_at :: string
  updated_at :: string

record PortfolioSummary =
  portfolio :: Portfolio
  holdings :: "HoldingWithQuote list"
  total_market_value :: number
  total_cost_basis :: number
  total_unrealized_pnl :: number
  total_unrealized_pnl_percent :: number
  total_positions :: number
  total_day_change :: number
  total_day_change_percent :: number
  last_updated :: string

section \<open>The portfolio bridge service (\<^verbatim>\<open>autotradeService.ts\<close>)\<close>

record 's AutotradePortfolioService =
  brokerAdapter :: "'s IStockBrokerAdapter option"
  defaultPortfolioId :: string

text \<open>The exported singleton, as its field initialisers leave it.\<close>

definition autotradePortfolioService :: "'s AutotradePortfolioService" where
  "autotradePortfolioService =
     \<lparr> brokerAdapter = None, defaultPortfolioId = ''autotrade-portfolio'' \<rparr>"

definition setBrokerAdapter ::
  "'s IStockBrokerAdapter \<Rightarrow> 's AutotradePortfolioService \<Rightarrow> 's AutotradePortfolioService" where
  "setBrokerAdapter adapter svc = svc\<lparr>brokerAdapter := Some adapter\<rparr>"

text \<open>The quotient \<^verbatim>\<open>x / y\<close> of JavaScript. With a zero denominator JavaScript yields an
  infinity or NaN, which no real number stands for: the model leaves the value
  unspecified there, so that nothing proved about a result can rest on it.\<close>

definition js_div :: "number \<Rightarrow> number \<Rightarrow> number" where
  "js_div x y = (if y = 0 then undefined else x / y)"

text \<open>\<^verbatim>\<open>fetchAutotradePortfolio\<close>: the \<^verbatim>\<open>catch\<close> block rethrows, so a rejection of either
  adapter call leaves the method as that rejection. \<^verbatim>\<open>reduce\<close> is \<open>foldl\<close>.\<close>

definition fetchAutotradePortfolio ::
  "clock \<Rightarrow> 's AutotradePortfolioService \<Rightarrow> string \<Rightarrow> 's \<Rightarrow>
   (error + AutotradePortfolioSummary) \<times> 's" where
  "fetchAutotradePortfolio clk svc accountId s =
     (case brokerAdapter svc of
        None \<Rightarrow> (Inl (Error ''Broker adapter not set''), s)
      | Some adapter \<Rightarrow>
         (case IStockBrokerAdapter.getFunds adapter s of
            (Inl e, s1) \<Rightarrow> (Inl e, s1)
          | (Inr funds, s1) \<Rightarrow>
             (case IStockBrokerAdapter.getPositions adapter s1 of
                (Inl e, s2) \<Rightarrow> (Inl e, s2)
              | (Inr posns, s2) \<Rightarrow>
                 (let totalMarketValue =
                        foldl (\<lambda>sum p. sum + \<bar>Position.quantity p * lastPrice p\<bar>) 0 posns;
                      totalCostBasis =
                        foldl (\<lambda>sum p. sum + \<bar>Position.quantity p * averagePrice p\<bar>) 0 posns;
                      totalUnrealizedPnl = foldl (\<lambda>sum p. sum + pnl p) 0 posns
                  in (Inr \<lparr> account_id = accountId,
                             AutotradePortfolioSummary.timestamp = now clk,
                             AutotradePortfolioSummary.currency = ''USD'',
                             cash_balance = availableCash funds,
                             AutotradePortfolioSummary.total_market_value = totalMarketValue,
                             AutotradePortfolioSummary.total_cost_basis = totalCostBasis,
                             AutotradePortfolioSummary.total_unrealized_pnl = totalUnrealizedPnl,
                             AutotradePortfolioSummary.total_unrealized_pnl_percent =
                               (if totalCostBasis > 0
                                then js_div totalUnrealizedPnl totalCostBasis * 100 else 0),
                             total_realized_pnl = 0,
                             AutotradePortfolioSummary.total_positions = real (length posns),
                             net_liquidation_value = totalMarketValue + availableCash funds,
                             buying_power = None,
                             day_trading_buying_power = None,
                             positions = map (\<lambda>p.
                               \<lparr> Position.symbol = Position.symbol p,
                                 exchange = exchange p,
                                 productType = productType p,
                                 Position.quantity = Position.quantity p,
                                 buyQuantity = buyQuantity p,
                                 sellQuantity = sellQuantity p,
                                 buyValue = buyValue p,
                                 sellValue = sellValue p,
                                 averagePrice = averagePrice p,
                                 lastPrice = lastPrice p,
                                 pnl = pnl p,
                                 pnlPercent = pnlPercent p,
                                 dayPnl = dayPnl p,
                                 overnight = (overnight p \<or> True),
                                 AutotradePosition.instrument_id =
                                   Position.symbol p @ ''.'' @ exchange p,
                                 AutotradePosition.market_value =
                                   \<bar>Position.quantity p * lastPrice p\<bar>,
                                 AutotradePosition.cost_basis =
                                   \<bar>Position.quantity p * averagePrice p\<bar>,
                                 AutotradePosition.day_change = dayPnl p,
                                 AutotradePosition.day_change_percent = 0,
                                 AutotradePosition.weight = 0,
                                 instrument_type = Some ''ETF'' \<rparr>) posns,
                             AutotradePortfolioSummary.last_updated =
                               toISOString clk (now clk) \<rparr>,
                      s2)))))"

definition getPortfolioSummary ::
  "clock \<Rightarrow> 's AutotradePortfolioService \<Rightarrow> string \<Rightarrow> 's \<Rightarrow> (error + PortfolioSummary) \<times> 's" where
  "getPortfolioSummary clk svc accountId s =
     (case brokerAdapter svc of
        None \<Rightarrow> (Inl (Error ''Broker adapter not set. Call setBrokerAdapter() first.''), s)
      | Some adapter \<Rightarrow>
         (case fetchAutotradePortfolio clk svc accountId s of
            (Inl e, s') \<Rightarrow> (Inl e, s')
          | (Inr autotradePortfolio, s') \<Rightarrow>
             (let finceptPortfolio =
                    transformAutotradePortfolioToFincept clk autotradePortfolio
                      (defaultPortfolioId svc);
                  holdings = map (\<lambda>h.
                    \<lparr> HoldingWithQuote.id' = AutotradePortfolioHolding.instrument_id h,
                      HoldingWithQuote.portfolio_id = defaultPortfolioId svc,
                      HoldingWithQuote.symbol = AutotradePortfolioHolding.symbol h,
                      HoldingWithQuote.quantity = AutotradePortfolioHolding.quantity h,
                      HoldingWithQuote.avg_buy_price = AutotradePortfolioHolding.avg_buy_price h,
                      HoldingWithQuote.current_price = AutotradePortfolioHolding.current_price h,
                      HoldingWithQuote.market_value = AutotradePortfolioHolding.market_value h,
                      HoldingWithQuote.cost_basis = AutotradePortfolioHolding.cost_basis h,
                      HoldingWithQuote.unrealized_pnl = AutotradePortfolioHolding.unrealized_pnl h,
                      HoldingWithQuote.unrealized_pnl_percent =
                        AutotradePortfolioHolding.unrealized_pnl_percent h,
                      HoldingWithQuote.day_change = AutotradePortfolioHolding.day_change h,
                      HoldingWithQuote.day_change_percent =
                        AutotradePortfolioHolding.day_change_percent h,
                      HoldingWithQuote.weight = AutotradePortfolioHolding.weight h,
                      HoldingWithQuote.first_purchase_date =
                        AutotradePortfolioHolding.first_purchase_date h,
                      HoldingWithQuote.last_updated = AutotradePortfolioHolding.last_updated h \<rparr>)
                    (FinceptProjection.holdings finceptPortfolio);
                  portfolio =
                    \<lparr> Portfolio.id' = defaultPortfolioId svc,
                      name = ''Autotrade Portfolio'',
                      owner = accountId,
                      Portfolio.currency = ''USD'',
                      description = ''Autotrade automated trading portfolio'',
                      created_at = AutotradePortfolioSummary.last_updated autotradePortfolio,
                      updated_at = AutotradePortfolioSummary.last_updated autotradePortfolio \<rparr>
              in (Inr \<lparr> PortfolioSummary.portfolio = portfolio,
                         PortfolioSummary.holdings = holdings,
                         PortfolioSummary.total_market_value = totalMarketValue finceptPortfolio,
                         PortfolioSummary.total_cost_basis = totalCostBasis finceptPortfolio,
                         PortfolioSummary.total_unrealized_pnl =
                           totalUnrealizedPnl finceptPortfolio,
                         PortfolioSummary.total_unrealized_pnl_percent =
                           totalUnrealizedPnlPercent finceptPortfolio,
                         PortfolioSummary.total_positions = totalPositions finceptPortfolio,
                         total_day_change = 0,
                         total_day_change_percent = 0,
                         PortfolioSummary.last_updated = lastUpdated finceptPortfolio \<rparr>,
                  s'))))"


section \<open>Sample data (\<^verbatim>\<open>types.ts\<close>, test utilities) and test doubles\<close>

definition sampleAutotradePosition :: AutotradePosition where
  "sampleAutotradePosition =
     \<lparr> Position.symbol = ''TQQQ'',
       exchange = ''NASDAQ'',
       productType = Some ''CASH'',
       Position.quantity = 100,
       buyQuantity = 100,
       sellQuantity = 0,
       buyValue = 4550.0,
       sellValue = 0,
       averagePrice = 45.5,
       lastPrice = 46.25,
       pnl = 75.0,
       pnlPercent = 1.648,
       dayPnl = 12.5,
       overnight = True,
       AutotradePosition.instrument_id = ''TQQQ.NASDAQ'',
       AutotradePosition.market_value = 4625.0,
       AutotradePosition.cost_basis = 4550.0,
       AutotradePosition.day_change = 12.5,
       AutotradePosition.day_change_percent = 0.272,
       AutotradePosition.weight = 0.0231,
       instrument_type = Some ''ETF'' \<rparr>"

definition sampleAutotradePortfolio :: "clock \<Rightarrow> AutotradePortfolioSummary" where
  "sampleAutotradePortfolio clk =
     \<lparr> account_id = ''DU8489265'',
       AutotradePortfolioSummary.timestamp = now clk,
       AutotradePortfolioSummary.currency = ''USD'',
       cash_balance = 50000.0,
       AutotradePortfolioSummary.total_market_value = 200500.0,
       AutotradePortfolioSummary.total_cost_basis = 180000.0,
       AutotradePortfolioSummary.total_unrealized_pnl = 20500.0,
       AutotradePortfolioSummary.total_unrealized_pnl_percent = 11.39,
       total_realized_pnl = 15000.0,
       AutotradePortfolioSummary.total_positions = 8,
       net_liquidation_value = 250500.0,
       buying_power = None,
       day_trading_buying_power = None,
       positions = [sampleAutotradePosition],
       AutotradePortfolioSummary.last_updated = toISOString clk (now clk) \<rparr>"

text \<open>A second summary, with a long and a short position.\<close>

definition two_positions :: "clock \<Rightarrow> AutotradePortfolioSummary" where
  "two_positions clk = (sampleAutotradePortfolio clk)
     \<lparr>positions :=
        [sampleAutotradePosition,
         sampleAutotradePosition
           \<lparr>Position.symbol := ''SQQQ'', Position.quantity := - 40, averagePrice := 12.5\<rparr>]\<rparr>"

text \<open>A fixed clock, an envelope builder and four bridges for the closed instances below:
  one that answers with the sample data, one that answers with a single position of
  quantity zero, one whose envelopes report a domain failure, and one whose calls are
  rejected.\<close>

definition fixed_clock :: clock where
  "fixed_clock = \<lparr> now = 1700000000000, toISOString = (\<lambda>t. ''2023-11-14T22:13:20.000Z'') \<rparr>"

definition ok_envelope :: "'a \<Rightarrow> 'a AutotradeApiResponse" where
  "ok_envelope d =
     \<lparr> AutotradeApiResponse.success = True, data = Some d, error = None,
       AutotradeApiResponse.errorCode = None, AutotradeApiResponse.timestamp = 1700000000,
       stale = None, age_seconds = None \<rparr>"

definition failed_envelope :: "string \<Rightarrow> 'a AutotradeApiResponse" where
  "failed_envelope msg =
     \<lparr> AutotradeApiResponse.success = False, data = None, error = Some msg,
       AutotradeApiResponse.errorCode = Some ''UPSTREAM'', AutotradeApiResponse.timestamp = 1700000000,
       stale = None, age_seconds = None \<rparr>"

definition sample_bridge :: bridge where
  "sample_bridge =
     \<lparr> invoke_summary = (\<lambda>command acc. Inr (ok_envelope (sampleAutotradePortfolio fixed_clock))),
       invoke_positions = (\<lambda>command acc. Inr (ok_envelope [sampleAutotradePosition])) \<rparr>"

definition flat_bridge :: bridge where
  "flat_bridge =
     \<lparr> invoke_summary = (\<lambda>command acc. Inr (ok_envelope (sampleAutotradePortfolio fixed_clock))),
       invoke_positions = (\<lambda>command acc.
         Inr (ok_envelope [sampleAutotradePosition\<lparr>Position.quantity := 0\<rparr>])) \<rparr>"

definition failing_bridge :: bridge where
  "failing_bridge =
     \<lparr> invoke_summary = (\<lambda>command acc. Inr (failed_envelope ''service unavailable'')),
       invoke_positions = (\<lambda>command acc. Inr (failed_envelope ''service unavailable'')) \<rparr>"

definition rejecting_bridge :: bridge where
  "rejecting_bridge =
     \<lparr> invoke_summary = (\<lambda>command acc. Inl (Error ''connection refused'')),
       invoke_positions = (\<lambda>command acc. Inl (Error ''connection refused'')) \<rparr>"

text \<open>The two shapes a write operation returns, and the property reads
  \<^verbatim>\<open>result.success\<close> and \<^verbatim>\<open>result.errorCode\<close> on them. The object literals that
  \<^verbatim>\<open>cancelAllOrders\<close> and \<^verbatim>\<open>closeAllPositions\<close> return have the five properties
  \<^verbatim>\<open>success\<close>, \<^verbatim>\<open>totalCount\<close>, \<^verbatim>\<open>successCount\<close>, \<^verbatim>\<open>failedCount\<close> and \<^verbatim>\<open>results\<close>: reading
  \<^verbatim>\<open>errorCode\<close> there yields \<^verbatim>\<open>undefined\<close>.\<close>

datatype 'r write_result = OrderResult OrderResponse | BulkResult "'r BulkOperationResult"

fun result_success :: "'r write_result \<Rightarrow> bool" where
  "result_success (OrderResult r) = OrderResponse.success r"
| "result_success (BulkResult r) = BulkOperationResult.success r"

fun result_errorCode :: "'r write_result \<Rightarrow> string option" where
  "result_errorCode (OrderResult r) = OrderResponse.errorCode r"
| "result_errorCode (BulkResult r) = None"


section \<open>Properties of the transform functions\<close>

text \<open>The two position transforms split the quantity in the same way; the facts below
  are the shared steps of the claims about them.\<close>

lemma transformAutotradePositionToPosition_sides:
  "buyQuantity (transformAutotradePositionToPosition p) =
     (if Position.quantity p > 0 then Position.quantity p else 0)"
  "sellQuantity (transformAutotradePositionToPosition p) =
     (if Position.quantity p < 0 then \<bar>Position.quantity p\<bar> else 0)"
  "Position.quantity (transformAutotradePositionToPosition p) = Position.quantity p"
  by (simp_all add: transformAutotradePositionToPosition_def)

lemma transformPosition_sides:
  "buyQuantity (transformPosition p) =
     (if Position.quantity p > 0 then Position.quantity p else 0)"
  "sellQuantity (transformPosition p) =
     (if Position.quantity p < 0 then \<bar>Position.quantity p\<bar> else 0)"
  "Position.quantity (transformPosition p) = Position.quantity p"
  by (simp_all add: transformPosition_def Let_def)

text \<open>
  C4. For every input position, the position transform (the exported
  \<^verbatim>\<open>transformAutotradePositionToPosition\<close> and the adapter's private \<^verbatim>\<open>transformPosition\<close>
  alike) returns \<open>buyQuantity = quantity\<close> and \<open>sellQuantity = 0\<close> when the quantity is
  positive, \<open>buyQuantity = 0\<close> and \<open>sellQuantity = |quantity|\<close> when it is negative, and
  both \<open>0\<close> when it is zero; in every case \<open>buyQuantity - sellQuantity = quantity\<close> on the
  transformed position.
\<close>

theorem position_transform_sides:
  fixes p :: AutotradePosition
  defines "q \<equiv> Position.quantity p"
  shows "\<forall>t \<in> {transformAutotradePositionToPosition p, transformPosition p}.
           (q > 0 \<longrightarrow> buyQuantity t = q \<and> sellQuantity t = 0) \<and>
           (q < 0 \<longrightarrow> buyQuantity t = 0 \<and> sellQuantity t = \<bar>q\<bar>) \<and>
           (q = 0 \<longrightarrow> buyQuantity t = 0 \<and> sellQuantity t = 0) \<and>
           buyQuantity t - sellQuantity t = Position.quantity t \<and>
           Position.quantity t = q"
  unfolding q_def
  by (simp add: transformAutotradePositionToPosition_sides transformPosition_sides)

theorem position_transform_sides_witness:
  "(let p = sampleAutotradePosition; t = transformPosition p in
      Position.quantity p = 100 \<and> buyQuantity t = 100 \<and> sellQuantity t = 0 \<and>
      buyQuantity t - sellQuantity t = 100) \<and>
   (let p = sampleAutotradePosition\<lparr>Position.quantity := - 40\<rparr>;
        t = transformAutotradePositionToPosition p in
      Position.quantity p = - 40 \<and> buyQuantity t = 0 \<and> sellQuantity t = 40 \<and>
      buyQuantity t - sellQuantity t = - 40) \<and>
   (let p = sampleAutotradePosition\<lparr>Position.quantity := 0\<rparr>;
        t = transformPosition p in
      Position.quantity p = 0 \<and> buyQuantity t = 0 \<and> sellQuantity t = 0 \<and>
      buyQuantity t - sellQuantity t = 0)"
  using position_transform_sides [of sampleAutotradePosition]
    position_transform_sides [of "sampleAutotradePosition\<lparr>Position.quantity := - 40\<rparr>"]
    position_transform_sides [of "sampleAutotradePosition\<lparr>Position.quantity := 0\<rparr>"]
  by (simp add: sampleAutotradePosition_def Let_def)

text \<open>
  C5. For every input position, whatever its own \<open>overnight\<close> field says, both position
  transforms return a position whose \<open>overnight\<close> field is true.
\<close>

theorem position_transform_overnight:
  "overnight (transformAutotradePositionToPosition (p\<lparr>overnight := b\<rparr>)) = True \<and>
   overnight (transformPosition (p\<lparr>overnight := b\<rparr>)) = True \<and>
   overnight (transformAutotradePositionToPosition p) = True \<and>
   overnight (transformPosition p) = True"
  by (simp add: transformAutotradePositionToPosition_def transformPosition_def Let_def)

text \<open>
  C7. For every portfolio summary with \<open>N\<close> positions, \<^verbatim>\<open>transformAutotradePortfolioToFincept\<close>
  returns exactly \<open>N\<close> holding rows, and the \<open>i\<close>-th row carries the symbol, the quantity
  and (as \<open>avg_buy_price\<close>) the average price of the \<open>i\<close>-th position.
\<close>

theorem transform_portfolio_rows:
  fixes clk :: clock and summary :: AutotradePortfolioSummary and pid :: string
  defines "hs \<equiv> FinceptProjection.holdings (transformAutotradePortfolioToFincept clk summary pid)"
  shows "length hs = length (positions summary) \<and>
         (\<forall>i < length (positions summary).
            AutotradePortfolioHolding.symbol (hs ! i) = Position.symbol (positions summary ! i) \<and>
            AutotradePortfolioHolding.quantity (hs ! i) =
              Position.quantity (positions summary ! i) \<and>
            AutotradePortfolioHolding.avg_buy_price (hs ! i) = averagePrice (positions summary ! i))"
  unfolding hs_def
  by (simp add: transformAutotradePortfolioToFincept_def Let_def)

theorem transform_portfolio_rows_witness:
  "(let hs = FinceptProjection.holdings
       (transformAutotradePortfolioToFincept fixed_clock (two_positions fixed_clock)
          ''autotrade-portfolio'')
    in length hs = 2 \<and> (0::nat) < 2 \<and> (1::nat) < 2 \<and>
       AutotradePortfolioHolding.symbol (hs ! 0) = ''TQQQ'' \<and>
       AutotradePortfolioHolding.quantity (hs ! 0) = 100 \<and>
       AutotradePortfolioHolding.avg_buy_price (hs ! 0) = 45.5 \<and>
       AutotradePortfolioHolding.symbol (hs ! 1) = ''SQQQ'' \<and>
       AutotradePortfolioHolding.quantity (hs ! 1) = - 40 \<and>
       AutotradePortfolioHolding.avg_buy_price (hs ! 1) = 12.5)"
  using transform_portfolio_rows
    [of fixed_clock "two_positions fixed_clock" "''autotrade-portfolio''"]
  by (simp add: two_positions_def sampleAutotradePortfolio_def sampleAutotradePosition_def
      Let_def)

section \<open>Properties of the broker adapter\<close>

text \<open>One bridge call appends exactly one entry to the spy and returns what the bridge
  answered.\<close>

lemma invokeAutotradeCommand_result:
  "fst (invokeAutotradeCommand invoke command acc w) = invoke command acc"
  by (simp add: invokeAutotradeCommand_def split: sum.splits)

lemma invokeAutotradeCommand_spy:
  "snd (invokeAutotradeCommand invoke command acc w) =
     w\<lparr>invocations := invocations w @ [(command, acc)]\<rparr>"
  by (simp add: invokeAutotradeCommand_def)

text \<open>The read operations do reach the bridge: each makes exactly one call, with the
  stored account identifier.\<close>

lemma getFunds_invokes_once:
  "invocations (snd (getFunds br w)) =
     invocations w @ [(''autotrade_get_account_summary'', private_accountId w)]"
  by (simp add: getFunds_def invokeAutotradeCommand_def split: sum.splits option.splits)

lemma getPositions_invokes_once:
  "invocations (snd (getPositions br w)) =
     invocations w @ [(''autotrade_get_positions'', private_accountId w)]"
  by (simp add: getPositions_def invokeAutotradeCommand_def split: sum.splits option.splits)

text \<open>
  C1, as the adapter has it. For every input, \<^verbatim>\<open>placeOrder\<close>, \<^verbatim>\<open>modifyOrder\<close>, \<^verbatim>\<open>cancelOrder\<close>
  and \<^verbatim>\<open>placeSmartOrder\<close> resolve to a response with \<open>success = False\<close> and the non-empty
  \<open>errorCode\<close> \<^verbatim>\<open>NOT_SUPPORTED\<close>; \<^verbatim>\<open>cancelAllOrders\<close> and \<^verbatim>\<open>closeAllPositions\<close> resolve to a
  bulk result with \<open>success = False\<close>, all three counts \<open>0\<close> and no results, which carries
  no \<open>errorCode\<close>. None of the six touches the adapter state or calls the bridge: the
  spy on \<^verbatim>\<open>invoke\<close> is left as it was, so a count of zero stays zero.
\<close>

theorem write_operations_not_supported:
  fixes w :: adapter_world
  shows
    "(\<forall>op \<in> {placeOrder p, modifyOrder m, cancelOrder orderId, placeSmartOrder sp}.
        \<exists>r. op w = (Inr r, w) \<and> result_success (OrderResult r) = False \<and>
            result_errorCode (OrderResult r) = Some ''NOT_SUPPORTED'' \<and> ''NOT_SUPPORTED'' \<noteq> []) \<and>
     (\<forall>op \<in> {cancelAllOrders, closeAllPositions}.
        \<exists>r :: 'r BulkOperationResult. op w = (Inr r, w) \<and> result_success (BulkResult r) = False \<and>
            totalCount r = 0 \<and> successCount r = 0 \<and> failedCount r = 0 \<and> results r = [] \<and>
            result_errorCode (BulkResult r) = None) \<and>
     (\<forall>op \<in> {placeOrder p, modifyOrder m, cancelOrder orderId, placeSmartOrder sp}.
        invocations (snd (op w)) = invocations w) \<and>
     invocations (snd (cancelAllOrders w :: (error + 'r BulkOperationResult) \<times> adapter_world)) =
       invocations w \<and>
     invocations (snd (closeAllPositions w :: (error + 'r BulkOperationResult) \<times> adapter_world)) =
       invocations w"
  by (simp add: placeOrder_def modifyOrder_def cancelOrder_def placeSmartOrder_def
      cancelAllOrders_def closeAllPositions_def)

theorem write_operations_not_supported_witness:
  "fst (placeOrder () new_AutotradeAdapter) =
     Inr \<lparr> OrderResponse.success = False,
           message = Some ''Autotrade does not support manual order placement'',
           OrderResponse.errorCode = Some ''NOT_SUPPORTED'' \<rparr> \<and>
   length (invocations (snd (placeOrder () new_AutotradeAdapter))) = 0 \<and>
   length (invocations (snd (cancelAllOrders new_AutotradeAdapter ::
      (error + unit BulkOperationResult) \<times> adapter_world))) = 0"
  using write_operations_not_supported [of "()" "()" "''42''" "()" new_AutotradeAdapter,
      where ?'r = unit]
  by (simp add: placeOrder_def new_AutotradeAdapter_def)

text \<open>The bulk result that \<^verbatim>\<open>cancelAllOrders\<close> returns on a fresh adapter is the five-property
  literal, and reading \<open>errorCode\<close> off it yields nothing: the non-empty error code that
  C1 asks of all six operations is not there.\<close>

theorem cancelAllOrders_no_errorCode:
  "fst (cancelAllOrders new_AutotradeAdapter) =
     Inr (\<lparr> BulkOperationResult.success = False, totalCount = 0, successCount = 0,
            failedCount = 0, results = ([] :: unit list) \<rparr>) \<and>
   result_errorCode
     (BulkResult \<lparr> BulkOperationResult.success = False, totalCount = 0, successCount = 0,
                   failedCount = 0, results = ([] :: unit list) \<rparr>) = None \<and>
   fst (closeAllPositions new_AutotradeAdapter) =
     Inr (\<lparr> BulkOperationResult.success = False, totalCount = 0, successCount = 0,
            failedCount = 0, results = ([] :: unit list) \<rparr>)"
  by (simp add: cancelAllOrders_def closeAllPositions_def)

text \<open>
  C2. Whenever the bridge call underlying \<^verbatim>\<open>getFunds\<close> yields an envelope with
  \<open>success = False\<close>, or one without \<open>data\<close>, \<^verbatim>\<open>getFunds\<close> rejects (with the envelope's error
  message, or \<^verbatim>\<open>Failed to fetch funds\<close> when there is none) and returns no \<open>Funds\<close> value.
\<close>

theorem getFunds_rejects_on_failure:
  assumes "invoke_summary br ''autotrade_get_account_summary'' (private_accountId w) =
             Inr response"
      and "\<not> AutotradeApiResponse.success response \<or> data response = None"
    shows "fst (getFunds br w) =
             Inl (Error (or_string (error response) ''Failed to fetch funds''))"
  using assms
  by (auto simp add: getFunds_def invokeAutotradeCommand_def split: option.splits)

theorem getFunds_rejects_on_failure_witness:
  "invoke_summary failing_bridge ''autotrade_get_account_summary''
      (private_accountId new_AutotradeAdapter) = Inr (failed_envelope ''service unavailable'') \<and>
   \<not> AutotradeApiResponse.success
       (failed_envelope ''service unavailable'' :: AutotradePortfolioSummary AutotradeApiResponse) \<and>
   fst (getFunds failing_bridge new_AutotradeAdapter) = Inl (Error ''service unavailable'')"
proof -
  have call: "invoke_summary failing_bridge ''autotrade_get_account_summary''
      (private_accountId new_AutotradeAdapter) = Inr (failed_envelope ''service unavailable'')"
    by (simp add: failing_bridge_def)
  have failed: "\<not> AutotradeApiResponse.success
       (failed_envelope ''service unavailable'' :: AutotradePortfolioSummary AutotradeApiResponse)
     \<or> data (failed_envelope ''service unavailable''
          :: AutotradePortfolioSummary AutotradeApiResponse) = None"
    by (simp add: failed_envelope_def)
  from getFunds_rejects_on_failure [OF call failed] call failed show ?thesis
    by (simp add: failed_envelope_def or_string_def)
qed

text \<open>
  C3. Whenever the bridge call underlying \<^verbatim>\<open>getPositions\<close> fails (the invocation is
  rejected, or its envelope has \<open>success = False\<close> or no \<open>data\<close>), \<^verbatim>\<open>getPositions\<close> resolves
  to the empty list; it does not reject.
\<close>

theorem getPositions_empty_on_failure:
  assumes "invoke_positions br ''autotrade_get_positions'' (private_accountId w) = Inl e \<or>
           (\<exists>response.
              invoke_positions br ''autotrade_get_positions'' (private_accountId w) =
                Inr response \<and>
              (\<not> AutotradeApiResponse.success response \<or> data response = None))"
    shows "fst (getPositions br w) = Inr []"
  using assms
  by (auto simp add: getPositions_def invokeAutotradeCommand_def split: option.splits)

theorem getPositions_empty_on_failure_witness:
  "invoke_positions rejecting_bridge ''autotrade_get_positions''
      (private_accountId new_AutotradeAdapter) = Inl (Error ''connection refused'') \<and>
   fst (getPositions rejecting_bridge new_AutotradeAdapter) = Inr [] \<and>
   invoke_positions failing_bridge ''autotrade_get_positions''
      (private_accountId new_AutotradeAdapter) = Inr (failed_envelope ''service unavailable'') \<and>
   fst (getPositions failing_bridge new_AutotradeAdapter) = Inr []"
  using getPositions_empty_on_failure
          [of rejecting_bridge new_AutotradeAdapter "Error ''connection refused''"]
        getPositions_empty_on_failure
          [of failing_bridge new_AutotradeAdapter "Error ''unused''"]
  by (simp add: rejecting_bridge_def failing_bridge_def failed_envelope_def)

text \<open>Beyond the failure cases: \<^verbatim>\<open>getPositions\<close> never rejects, whatever the bridge does,
  and \<^verbatim>\<open>getFunds\<close> does return funds when the envelope is a success with data.\<close>

lemma getPositions_never_rejects: "\<exists>ps. fst (getPositions br w) = Inr ps"
  by (auto simp add: getPositions_def invokeAutotradeCommand_def
      split: sum.splits option.splits)

lemma getFunds_rethrows:
  assumes "invoke_summary br ''autotrade_get_account_summary'' (private_accountId w) = Inl e"
    shows "fst (getFunds br w) = Inl e"
  using assms by (simp add: getFunds_def invokeAutotradeCommand_def)

lemma getFunds_resolves_on_success:
  assumes "invoke_summary br ''autotrade_get_account_summary'' (private_accountId w) =
             Inr response"
      and "AutotradeApiResponse.success response" and "data response = Some summary"
    shows "\<exists>funds. fst (getFunds br w) = Inr funds \<and> availableCash funds = cash_balance summary"
  using assms by (simp add: getFunds_def invokeAutotradeCommand_def)


section \<open>Properties of the portfolio bridge service\<close>

text \<open>What a successful \<^verbatim>\<open>fetchAutotradePortfolio\<close> returns, field by field, in terms of the
  funds and positions the adapter supplied.\<close>

lemma fetchAutotradePortfolio_Inr:
  assumes "fetchAutotradePortfolio clk svc accountId s = (Inr pf, s')"
  obtains adapter funds s1 posns where
    "brokerAdapter svc = Some adapter"
    "IStockBrokerAdapter.getFunds adapter s = (Inr funds, s1)"
    "IStockBrokerAdapter.getPositions adapter s1 = (Inr posns, s')"
    "cash_balance pf = availableCash funds"
    "AutotradePortfolioSummary.total_market_value pf =
       foldl (\<lambda>sum p. sum + \<bar>Position.quantity p * lastPrice p\<bar>) 0 posns"
    "AutotradePortfolioSummary.total_cost_basis pf =
       foldl (\<lambda>sum p. sum + \<bar>Position.quantity p * averagePrice p\<bar>) 0 posns"
    "AutotradePortfolioSummary.total_unrealized_pnl pf = foldl (\<lambda>sum p. sum + pnl p) 0 posns"
    "AutotradePortfolioSummary.total_unrealized_pnl_percent pf =
       (if AutotradePortfolioSummary.total_cost_basis pf > 0
        then js_div (AutotradePortfolioSummary.total_unrealized_pnl pf)
               (AutotradePortfolioSummary.total_cost_basis pf) * 100
        else 0)"
    "net_liquidation_value pf =
       AutotradePortfolioSummary.total_market_value pf + availableCash funds"
    "length (positions pf) = length posns"
    "\<forall>p \<in> set (positions pf).
       AutotradePosition.weight p = 0 \<and> AutotradePosition.day_change_percent p = 0"
proof -
  from assms obtain adapter where a: "brokerAdapter svc = Some adapter"
    by (auto simp add: fetchAutotradePortfolio_def split: option.splits)
  from assms a obtain funds s1 where f: "IStockBrokerAdapter.getFunds adapter s = (Inr funds, s1)"
    by (auto simp add: fetchAutotradePortfolio_def split: prod.splits sum.splits)
  from assms a f obtain posns where
    p: "IStockBrokerAdapter.getPositions adapter s1 = (Inr posns, s')"
    by (auto simp add: fetchAutotradePortfolio_def Let_def split: prod.splits sum.splits)
  show thesis
  proof (rule that [OF a f p])
    from assms a f p show "cash_balance pf = availableCash funds"
      by (auto simp add: fetchAutotradePortfolio_def Let_def)
    from assms a f p show "AutotradePortfolioSummary.total_market_value pf =
       foldl (\<lambda>sum p. sum + \<bar>Position.quantity p * lastPrice p\<bar>) 0 posns"
      by (auto simp add: fetchAutotradePortfolio_def Let_def)
    from assms a f p show "AutotradePortfolioSummary.total_cost_basis pf =
       foldl (\<lambda>sum p. sum + \<bar>Position.quantity p * averagePrice p\<bar>) 0 posns"
      by (auto simp add: fetchAutotradePortfolio_def Let_def)
    from assms a f p show "AutotradePortfolioSummary.total_unrealized_pnl pf =
       foldl (\<lambda>sum p. sum + pnl p) 0 posns"
      by (auto simp add: fetchAutotradePortfolio_def Let_def)
    from assms a f p show "AutotradePortfolioSummary.total_unrealized_pnl_percent pf =
       (if AutotradePortfolioSummary.total_cost_basis pf > 0
        then js_div (AutotradePortfolioSummary.total_unrealized_pnl pf)
               (AutotradePortfolioSummary.total_cost_basis pf) * 100
        else 0)"
      by (auto simp add: fetchAutotradePortfolio_def Let_def)
    from assms a f p show "net_liquidation_value pf =
       AutotradePortfolioSummary.total_market_value pf + availableCash funds"
      by (auto simp add: fetchAutotradePortfolio_def Let_def)
    from assms a f p show "length (positions pf) = length posns"
      by (auto simp add: fetchAutotradePortfolio_def Let_def)
    from assms a f p show "\<forall>p \<in> set (positions pf).
       AutotradePosition.weight p = 0 \<and> AutotradePosition.day_change_percent p = 0"
      by (auto simp add: fetchAutotradePortfolio_def Let_def)
  qed
qed


text \<open>The sums of absolute values that make up the cost basis are never negative, so the
  guard \<open>totalCostBasis > 0\<close> fails exactly when the cost basis is zero.\<close>

lemma foldl_abs_nonneg:
  fixes f :: "'a \<Rightarrow> real"
  shows "0 \<le> acc \<Longrightarrow> 0 \<le> foldl (\<lambda>sum p. sum + \<bar>f p\<bar>) acc xs"
  by (induction xs arbitrary: acc) simp_all

lemma total_cost_basis_nonneg:
  assumes "fetchAutotradePortfolio clk svc accountId s = (Inr pf, s')"
    shows "0 \<le> AutotradePortfolioSummary.total_cost_basis pf"
  using assms by (rule fetchAutotradePortfolio_Inr) (simp add: foldl_abs_nonneg)

lemma positive_cost_basis_percent:
  assumes "fetchAutotradePortfolio clk svc accountId s = (Inr pf, s')"
      and "AutotradePortfolioSummary.total_cost_basis pf > 0"
    shows "AutotradePortfolioSummary.total_unrealized_pnl_percent pf =
             AutotradePortfolioSummary.total_unrealized_pnl pf /
               AutotradePortfolioSummary.total_cost_basis pf * 100"
proof -
  from assms(1) have
    "AutotradePortfolioSummary.total_unrealized_pnl_percent pf =
       (if AutotradePortfolioSummary.total_cost_basis pf > 0
        then js_div (AutotradePortfolioSummary.total_unrealized_pnl pf)
               (AutotradePortfolioSummary.total_cost_basis pf) * 100
        else 0)"
    by (rule fetchAutotradePortfolio_Inr)
  with assms(2) show ?thesis by (simp add: js_div_def)
qed

text \<open>
  C6. For every funds-and-positions input whose summed \<open>total_cost_basis\<close> is \<open>0\<close>, the
  summary that \<^verbatim>\<open>fetchAutotradePortfolio\<close> synthesizes has \<open>total_unrealized_pnl_percent = 0\<close>:
  the quotient is taken only under the guard \<open>totalCostBasis > 0\<close>.
\<close>

theorem zero_cost_basis_zero_percent:
  assumes "fetchAutotradePortfolio clk svc accountId s = (Inr pf, s')"
      and "AutotradePortfolioSummary.total_cost_basis pf = 0"
    shows "AutotradePortfolioSummary.total_unrealized_pnl_percent pf = 0"
proof -
  from assms(1) have
    "AutotradePortfolioSummary.total_unrealized_pnl_percent pf =
       (if AutotradePortfolioSummary.total_cost_basis pf > 0
        then js_div (AutotradePortfolioSummary.total_unrealized_pnl pf)
               (AutotradePortfolioSummary.total_cost_basis pf) * 100
        else 0)"
    by (rule fetchAutotradePortfolio_Inr)
  with assms(2) show ?thesis by simp
qed

theorem zero_cost_basis_zero_percent_witness:
  "(case fetchAutotradePortfolio fixed_clock
           (setBrokerAdapter (AutotradeAdapter flat_bridge) autotradePortfolioService)
           ''DU8489265'' new_AutotradeAdapter of
      (Inr pf, w) \<Rightarrow>
         AutotradePortfolioSummary.total_cost_basis pf = 0 \<and>
         AutotradePortfolioSummary.total_unrealized_pnl pf = 75 \<and>
         AutotradePortfolioSummary.total_unrealized_pnl_percent pf = 0
    | (Inl e, w) \<Rightarrow> False)"
proof -
  obtain r w where run: "fetchAutotradePortfolio fixed_clock
           (setBrokerAdapter (AutotradeAdapter flat_bridge) autotradePortfolioService)
           ''DU8489265'' new_AutotradeAdapter = (r, w)"
    by (cases "fetchAutotradePortfolio fixed_clock
           (setBrokerAdapter (AutotradeAdapter flat_bridge) autotradePortfolioService)
           ''DU8489265'' new_AutotradeAdapter")
  from run obtain pf where r: "r = Inr pf"
    by (auto simp add: fetchAutotradePortfolio_def setBrokerAdapter_def
        autotradePortfolioService_def AutotradeAdapter_def getFunds_def getPositions_def
        invokeAutotradeCommand_def flat_bridge_def ok_envelope_def new_AutotradeAdapter_def
        Let_def)
  from run r have basis: "AutotradePortfolioSummary.total_cost_basis pf = 0"
    and pnl: "AutotradePortfolioSummary.total_unrealized_pnl pf = 75"
    by (auto simp add: fetchAutotradePortfolio_def setBrokerAdapter_def
        autotradePortfolioService_def AutotradeAdapter_def getFunds_def getPositions_def
        invokeAutotradeCommand_def flat_bridge_def ok_envelope_def new_AutotradeAdapter_def
        transformPosition_def sampleAutotradePosition_def Let_def)
  from zero_cost_basis_zero_percent [OF run [unfolded r] basis] basis pnl run r
  show ?thesis by simp
qed

text \<open>
  C8. When \<^verbatim>\<open>getFunds\<close> yields \<open>availableCash = 50000\<close> and \<^verbatim>\<open>getPositions\<close> yields the single
  position with quantity \<open>100\<close>, average price \<open>45.5\<close>, last price \<open>46.25\<close> and P&L \<open>75\<close>, the
  synthesized summary has \<open>total_market_value = 4625\<close>, \<open>total_cost_basis = 4550\<close>,
  \<open>total_unrealized_pnl = 75\<close> and \<open>net_liquidation_value = 54625\<close>.
\<close>

theorem fetch_scenario_totals:
  assumes "brokerAdapter svc = Some adapter"
      and "IStockBrokerAdapter.getFunds adapter s = (Inr funds, s1)"
      and "availableCash funds = 50000"
      and "IStockBrokerAdapter.getPositions adapter s1 = (Inr [p], s2)"
      and "Position.quantity p = 100" and "averagePrice p = 45.5"
      and "lastPrice p = 46.25" and "pnl p = 75"
    shows "\<exists>pf. fetchAutotradePortfolio clk svc accountId s = (Inr pf, s2) \<and>
             AutotradePortfolioSummary.total_market_value pf = 4625 \<and>
             AutotradePortfolioSummary.total_cost_basis pf = 4550 \<and>
             AutotradePortfolioSummary.total_unrealized_pnl pf = 75 \<and>
             net_liquidation_value pf = 54625"
  using assms by (simp add: fetchAutotradePortfolio_def Let_def)

theorem fetch_scenario_totals_witness:
  "\<exists>pf w. fetchAutotradePortfolio fixed_clock
            (setBrokerAdapter (AutotradeAdapter sample_bridge) autotradePortfolioService)
            ''DU8489265'' new_AutotradeAdapter = (Inr pf, w) \<and>
          AutotradePortfolioSummary.total_market_value pf = 4625 \<and>
          AutotradePortfolioSummary.total_cost_basis pf = 4550 \<and>
          AutotradePortfolioSummary.total_unrealized_pnl pf = 75 \<and>
          net_liquidation_value pf = 54625"
proof -
  let ?svc = "setBrokerAdapter (AutotradeAdapter sample_bridge) autotradePortfolioService
                :: adapter_world AutotradePortfolioService"
  obtain rf w1 where funds: "getFunds sample_bridge new_AutotradeAdapter = (rf, w1)"
    by (cases "getFunds sample_bridge new_AutotradeAdapter")
  obtain rp w2 where posns: "getPositions sample_bridge w1 = (rp, w2)"
    by (cases "getPositions sample_bridge w1")
  have a: "brokerAdapter ?svc = Some (AutotradeAdapter sample_bridge)"
    by (simp add: setBrokerAdapter_def)
  from funds obtain f where rf: "rf = Inr f" and cash: "availableCash f = 50000"
    by (auto simp add: getFunds_def invokeAutotradeCommand_def sample_bridge_def
        ok_envelope_def sampleAutotradePortfolio_def)
  from posns obtain p where rp: "rp = Inr [p]"
    and p: "Position.quantity p = 100" "averagePrice p = 45.5" "lastPrice p = 46.25" "pnl p = 75"
    by (auto simp add: getPositions_def invokeAutotradeCommand_def sample_bridge_def
        ok_envelope_def transformPosition_def sampleAutotradePosition_def Let_def)
  have f': "IStockBrokerAdapter.getFunds (AutotradeAdapter sample_bridge) new_AutotradeAdapter =
              (Inr f, w1)"
    using funds rf by (simp add: AutotradeAdapter_def)
  have p': "IStockBrokerAdapter.getPositions (AutotradeAdapter sample_bridge) w1 = (Inr [p], w2)"
    using posns rp by (simp add: AutotradeAdapter_def)
  from fetch_scenario_totals [OF a f' cash p' p, of fixed_clock "''DU8489265''"]
  show ?thesis by blast
qed

text \<open>
  C9. Every summary that \<^verbatim>\<open>fetchAutotradePortfolio\<close> synthesizes, whatever funds and
  positions the adapter returned, satisfies
  \<open>net_liquidation_value = total_market_value + cash_balance\<close>.
\<close>

theorem net_liquidation_value_invariant:
  assumes "fetchAutotradePortfolio clk svc accountId s = (Inr pf, s')"
    shows "net_liquidation_value pf =
             AutotradePortfolioSummary.total_market_value pf + cash_balance pf"
  using assms by (rule fetchAutotradePortfolio_Inr) simp

theorem net_liquidation_value_invariant_witness:
  "(case fetchAutotradePortfolio fixed_clock
           (setBrokerAdapter (AutotradeAdapter sample_bridge) autotradePortfolioService)
           ''DU8489265'' new_AutotradeAdapter of
      (Inr pf, w) \<Rightarrow>
         net_liquidation_value pf =
           AutotradePortfolioSummary.total_market_value pf + cash_balance pf
    | (Inl e, w) \<Rightarrow> False)"
proof -
  obtain r w where run: "fetchAutotradePortfolio fixed_clock
           (setBrokerAdapter (AutotradeAdapter sample_bridge) autotradePortfolioService)
           ''DU8489265'' new_AutotradeAdapter = (r, w)"
    by (cases "fetchAutotradePortfolio fixed_clock
           (setBrokerAdapter (AutotradeAdapter sample_bridge) autotradePortfolioService)
           ''DU8489265'' new_AutotradeAdapter")
  from run obtain pf where r: "r = Inr pf"
    by (auto simp add: fetchAutotradePortfolio_def setBrokerAdapter_def
        autotradePortfolioService_def AutotradeAdapter_def getFunds_def getPositions_def
        invokeAutotradeCommand_def sample_bridge_def ok_envelope_def new_AutotradeAdapter_def
        Let_def)
  from net_liquidation_value_invariant [OF run [unfolded r]] run r
  show ?thesis by simp
qed


text \<open>The holdings of \<^verbatim>\<open>transformAutotradePortfolioToFincept\<close> row by row, and how
  \<^verbatim>\<open>getPortfolioSummary\<close> hands them on.\<close>

lemma transform_holdings_percent_weight:
  assumes "h \<in> set (FinceptProjection.holdings
                      (transformAutotradePortfolioToFincept clk summary pid))"
  shows "AutotradePortfolioHolding.day_change_percent h = 0"
    and "\<exists>pos \<in> set (positions summary).
           AutotradePortfolioHolding.weight h = AutotradePosition.weight pos"
  using assms by (auto simp add: transformAutotradePortfolioToFincept_def Let_def)

lemma getPortfolioSummary_Inr:
  assumes "getPortfolioSummary clk svc accountId s = (Inr summ, s')"
  obtains pf where
    "fetchAutotradePortfolio clk svc accountId s = (Inr pf, s')"
    "map HoldingWithQuote.weight (PortfolioSummary.holdings summ) =
       map AutotradePortfolioHolding.weight
         (FinceptProjection.holdings
            (transformAutotradePortfolioToFincept clk pf (defaultPortfolioId svc)))"
    "map HoldingWithQuote.day_change_percent (PortfolioSummary.holdings summ) =
       map AutotradePortfolioHolding.day_change_percent
         (FinceptProjection.holdings
            (transformAutotradePortfolioToFincept clk pf (defaultPortfolioId svc)))"
proof -
  from assms obtain pf where run: "fetchAutotradePortfolio clk svc accountId s = (Inr pf, s')"
    by (auto simp add: getPortfolioSummary_def Let_def
        split: option.splits prod.splits sum.splits)
  from assms have set: "brokerAdapter svc \<noteq> None"
    by (auto simp add: getPortfolioSummary_def split: option.splits)
  show thesis
  proof (rule that [OF run])
    from assms run set
    show "map HoldingWithQuote.weight (PortfolioSummary.holdings summ) =
       map AutotradePortfolioHolding.weight
         (FinceptProjection.holdings
            (transformAutotradePortfolioToFincept clk pf (defaultPortfolioId svc)))"
      by (auto simp add: getPortfolioSummary_def Let_def comp_def)
    from assms run set
    show "map HoldingWithQuote.day_change_percent (PortfolioSummary.holdings summ) =
       map AutotradePortfolioHolding.day_change_percent
         (FinceptProjection.holdings
            (transformAutotradePortfolioToFincept clk pf (defaultPortfolioId svc)))"
      by (auto simp add: getPortfolioSummary_def Let_def comp_def)
  qed
qed

text \<open>
  C10. Every holding row returned by \<^verbatim>\<open>getPortfolioSummary\<close>, for any funds and positions
  the adapter supplies, has \<open>weight = 0\<close> and \<open>day_change_percent = 0\<close>: the bridge service
  writes both as \<open>0\<close> on the positions it synthesizes, the transform writes
  \<open>day_change_percent\<close> as \<open>0\<close> again and copies \<open>weight\<close>, and \<^verbatim>\<open>getPortfolioSummary\<close> copies
  both.
\<close>

theorem holdings_weight_and_day_change_percent_zero:
  assumes "getPortfolioSummary clk svc accountId s = (Inr summ, s')"
    shows "\<forall>h \<in> set (PortfolioSummary.holdings summ).
             HoldingWithQuote.weight h = 0 \<and> HoldingWithQuote.day_change_percent h = 0"
proof -
  from assms obtain pf where
    run: "fetchAutotradePortfolio clk svc accountId s = (Inr pf, s')" and
    weights: "map HoldingWithQuote.weight (PortfolioSummary.holdings summ) =
       map AutotradePortfolioHolding.weight
         (FinceptProjection.holdings
            (transformAutotradePortfolioToFincept clk pf (defaultPortfolioId svc)))" and
    percents: "map HoldingWithQuote.day_change_percent (PortfolioSummary.holdings summ) =
       map AutotradePortfolioHolding.day_change_percent
         (FinceptProjection.holdings
            (transformAutotradePortfolioToFincept clk pf (defaultPortfolioId svc)))"
    by (rule getPortfolioSummary_Inr)
  from run have synthesized: "\<forall>p \<in> set (positions pf).
       AutotradePosition.weight p = 0 \<and> AutotradePosition.day_change_percent p = 0"
    by (rule fetchAutotradePortfolio_Inr)
  let ?rows = "FinceptProjection.holdings
                 (transformAutotradePortfolioToFincept clk pf (defaultPortfolioId svc))"
  have rows: "\<forall>r \<in> set ?rows.
      AutotradePortfolioHolding.weight r = 0 \<and> AutotradePortfolioHolding.day_change_percent r = 0"
    using transform_holdings_percent_weight [of _ clk pf "defaultPortfolioId svc"] synthesized
    by fastforce
  show ?thesis
  proof
    fix h assume h: "h \<in> set (PortfolioSummary.holdings summ)"
    then have "HoldingWithQuote.weight h \<in> set (map AutotradePortfolioHolding.weight ?rows)"
      and "HoldingWithQuote.day_change_percent h
             \<in> set (map AutotradePortfolioHolding.day_change_percent ?rows)"
      using weights percents by (metis image_eqI set_map)+
    with rows show "HoldingWithQuote.weight h = 0 \<and> HoldingWithQuote.day_change_percent h = 0"
      by auto
  qed
qed

theorem holdings_weight_and_day_change_percent_zero_witness:
  "(case getPortfolioSummary fixed_clock
           (setBrokerAdapter (AutotradeAdapter sample_bridge) autotradePortfolioService)
           ''DU8489265'' new_AutotradeAdapter of
      (Inr summ, w) \<Rightarrow>
         length (PortfolioSummary.holdings summ) = 1 \<and>
         (\<forall>h \<in> set (PortfolioSummary.holdings summ).
            HoldingWithQuote.weight h = 0 \<and> HoldingWithQuote.day_change_percent h = 0)
    | (Inl e, w) \<Rightarrow> False)"
proof -
  obtain r w where run: "getPortfolioSummary fixed_clock
           (setBrokerAdapter (AutotradeAdapter sample_bridge) autotradePortfolioService)
           ''DU8489265'' new_AutotradeAdapter = (r, w)"
    by (cases "getPortfolioSummary fixed_clock
           (setBrokerAdapter (AutotradeAdapter sample_bridge) autotradePortfolioService)
           ''DU8489265'' new_AutotradeAdapter")
  from run obtain summ where r: "r = Inr summ"
    and rows: "length (PortfolioSummary.holdings summ) = 1"
    by (auto simp add: getPortfolioSummary_def fetchAutotradePortfolio_def
        transformAutotradePortfolioToFincept_def setBrokerAdapter_def
        autotradePortfolioService_def AutotradeAdapter_def getFunds_def getPositions_def
        invokeAutotradeCommand_def sample_bridge_def ok_envelope_def new_AutotradeAdapter_def
        Let_def)
  from holdings_weight_and_day_change_percent_zero [OF run [unfolded r]] run r rows
  show ?thesis by simp
qed


end
